theory Spec2Isabelle
  imports Main "HOL-Library.Word"
begin

section \<open>Values the client exchanges\<close>

text \<open>
  The client of \<^verbatim>\<open>main.py\<close> talks to a builder service over HTTP (the
  \<^verbatim>\<open>requests\<close> library) and to a ledger node through an RPC client. Both peers are
  outside the program: they are parameters of the model, and every call that reaches them
  threads an explicit state and a log of what was sent.
\<close>

type_synonym byte = "8 word"
type_synonym bytes = "byte list"

text \<open>A public key is its 32 raw bytes (\<^verbatim>\<open>bytes(pk)\<close>).\<close>

type_synonym PublicKey = bytes

record Keypair =
  secret_key :: bytes
  pubkey :: PublicKey

text \<open>
  What \<^verbatim>\<open>json.loads\<close> yields and \<^verbatim>\<open>json=\<close> accepts. A dictionary is the list of
  its items; Python's \<^verbatim>\<open>None\<close> is \<open>JNull\<close>.
\<close>

datatype json =
    JNull
  | JBool bool
  | JInt int
  | JStr string
  | JList "json list"
  | JDict "(string \<times> json) list"

text \<open>
  A versioned transaction: the message the builder service made, opaque to the client
  (type \<open>'m\<close>), and the signatures attached to it.
\<close>

record 'm VersionedTransaction =
  message :: 'm
  signatures :: "bytes list"

text \<open>The exceptions the calls of \<^verbatim>\<open>main.py\<close> can raise.\<close>

datatype exn =
    ConnectionError
  | ReadTimeout
  | HTTPError int
  | JSONDecodeError
  | KeyError string
  | TypeError
  | AttributeError
  | BinasciiError
  | DeserializeError
  | SignerError
  | DerivationExhaustedError
  | RPCException

text \<open>
  A call returns a value, raises, or never comes back (\<open>Hang\<close>: the peer stays silent
  and nothing bounds the wait).
\<close>

datatype 'a result = Return 'a | Raise exn | Hang

section \<open>The \<^verbatim>\<open>requests\<close> library\<close>

datatype http_method = GET | POST

record request =
  http_method :: http_method
  url :: string
  req_json :: "json option"
  timeout :: "nat option"

text \<open>
  A response carries its status code and its body; \<open>body_json\<close> is \<open>None\<close> when the
  body is not JSON (\<^verbatim>\<open>res.json()\<close> raises then).
\<close>

record response =
  status_code :: int
  body_json :: "json option"

text \<open>
  What the peer does with a request: it answers, the connection fails, or it stays
  silent. The peer is any function of its own state and the request.
\<close>

datatype reply = Reply response | Refused | Silent

type_synonym 'w server = "'w \<Rightarrow> request \<Rightarrow> reply \<times> 'w"

record 'w net =
  remote :: 'w
  sent :: "request list"

text \<open>
  \<^verbatim>\<open>requests.request\<close>: the request goes out; an answer is returned, a failed
  connection raises, and a silent peer raises once the timeout has passed, or blocks for
  ever when the timeout is \<^verbatim>\<open>None\<close> (the library's default).
\<close>

definition requests_request :: "'w server \<Rightarrow> request \<Rightarrow> 'w net \<Rightarrow> response result \<times> 'w net" where
  "requests_request srv rq n =
     (case srv (remote n) rq of
        (rep, w') \<Rightarrow>
          (let n' = \<lparr>remote = w', sent = sent n @ [rq]\<rparr> in
           case rep of
             Reply res \<Rightarrow> (Return res, n')
           | Refused \<Rightarrow> (Raise ConnectionError, n')
           | Silent \<Rightarrow>
               (case timeout rq of
                  None \<Rightarrow> (Hang, n')
                | Some t \<Rightarrow> (Raise ReadTimeout, n'))))"

text \<open>\<^verbatim>\<open>requests.post(url, json=..., timeout=...)\<close> and \<^verbatim>\<open>requests.get(url, timeout=...)\<close>.\<close>

definition requests_post ::
  "'w server \<Rightarrow> string \<Rightarrow> json \<Rightarrow> nat option \<Rightarrow> 'w net \<Rightarrow> response result \<times> 'w net" where
  "requests_post srv u js t =
     requests_request srv \<lparr>http_method = POST, url = u, req_json = Some js, timeout = t\<rparr>"

definition requests_get ::
  "'w server \<Rightarrow> string \<Rightarrow> nat option \<Rightarrow> 'w net \<Rightarrow> response result \<times> 'w net" where
  "requests_get srv u t =
     requests_request srv \<lparr>http_method = GET, url = u, req_json = None, timeout = t\<rparr>"

text \<open>
  \<^verbatim>\<open>Response.raise_for_status\<close>: a client error (4xx) or a server error (5xx) raises
  \<^verbatim>\<open>HTTPError\<close>; every other status passes.
\<close>

definition raise_for_status :: "response \<Rightarrow> exn option" where
  "raise_for_status res =
     (if 400 \<le> status_code res \<and> status_code res < 500 then Some (HTTPError (status_code res))
      else if 500 \<le> status_code res \<and> status_code res < 600 then Some (HTTPError (status_code res))
      else None)"

text \<open>\<^verbatim>\<open>Response.ok\<close>: true when \<^verbatim>\<open>raise_for_status\<close> does not raise.\<close>

definition ok :: "response \<Rightarrow> bool" where
  "ok res = (raise_for_status res = None)"

text \<open>\<^verbatim>\<open>Response.json\<close>.\<close>

definition response_json :: "response \<Rightarrow> exn + json" where
  "response_json res = (case body_json res of None \<Rightarrow> Inl JSONDecodeError | Some j \<Rightarrow> Inr j)"

section \<open>Python values\<close>

text \<open>
  \<^verbatim>\<open>data[key]\<close> with a string key: a dictionary looks the key up and raises
  \<^verbatim>\<open>KeyError\<close> when it is missing; every other JSON value raises \<^verbatim>\<open>TypeError\<close>.
\<close>

fun getitem :: "json \<Rightarrow> string \<Rightarrow> exn + json" where
  "getitem (JDict kv) k = (case map_of kv k of None \<Rightarrow> Inl (KeyError k) | Some v \<Rightarrow> Inr v)"
| "getitem _ k = Inl TypeError"

text \<open>
  \<^verbatim>\<open>data.get(key)\<close>: a dictionary returns the value, or \<^verbatim>\<open>None\<close> when the key is
  missing; no other JSON value has the method.
\<close>

fun dict_get :: "json \<Rightarrow> string \<Rightarrow> exn + json" where
  "dict_get (JDict kv) k = Inr (case map_of kv k of None \<Rightarrow> JNull | Some v \<Rightarrow> v)"
| "dict_get _ k = Inl AttributeError"

text \<open>
  \<^verbatim>\<open>bytes.ljust(width, fillbyte)\<close>: the bytes, left-justified in a field of
  \<open>width\<close>; the fill byte goes to the right, and bytes that are already as long as the
  field come back unchanged.
\<close>

definition ljust :: "nat \<Rightarrow> byte \<Rightarrow> bytes \<Rightarrow> bytes" where
  "ljust width fillbyte bs = bs @ replicate (width - length bs) fillbyte"

subsection \<open>Base64\<close>

definition b64_alphabet :: string where
  "b64_alphabet = ''ABCDEFGHIJKLMNOPQRSTUVWXYZabcdefghijklmnopqrstuvwxyz0123456789+/''"

definition b64_char :: "nat \<Rightarrow> char" where
  "b64_char i = b64_alphabet ! i"

text \<open>
  \<^verbatim>\<open>base64.b64encode\<close>: three bytes become four characters of the alphabet; a last
  group of one or two bytes is padded with \<^verbatim>\<open>=\<close>.
\<close>

fun b64encode :: "bytes \<Rightarrow> string" where
  "b64encode [] = []"
| "b64encode [a] =
     [b64_char (unat a div 4), b64_char (unat a mod 4 * 16), CHR ''='', CHR ''='']"
| "b64encode [a, b] =
     [b64_char (unat a div 4), b64_char (unat a mod 4 * 16 + unat b div 16),
      b64_char (unat b mod 16 * 4), CHR ''='']"
| "b64encode (a # b # c # rest) =
     [b64_char (unat a div 4), b64_char (unat a mod 4 * 16 + unat b div 16),
      b64_char (unat b mod 16 * 4 + unat c div 64), b64_char (unat c mod 64)] @ b64encode rest"

text \<open>
  The decoder of the canonical encoding: it reads back exactly what \<open>b64encode\<close> writes
  and rejects everything else. It shows that the encoding loses nothing; the client itself
  decodes with the library's \<^verbatim>\<open>b64decode\<close>, a parameter below.
\<close>

definition b64_index :: "char \<Rightarrow> nat option" where
  "b64_index c = map_of (zip b64_alphabet [0..<64]) c"

fun b64decode_canonical :: "string \<Rightarrow> bytes option" where
  "b64decode_canonical [] = Some []"
| "b64decode_canonical (c1 # c2 # c3 # c4 # rest) =
     (case (b64_index c1, b64_index c2) of
        (Some i1, Some i2) \<Rightarrow>
          (if c3 = CHR ''='' \<and> c4 = CHR ''='' \<and> rest = [] then
             (if i2 mod 16 = 0 then Some [of_nat (i1 * 4 + i2 div 16)] else None)
           else
             (case b64_index c3 of
                None \<Rightarrow> None
              | Some i3 \<Rightarrow>
                  (if c4 = CHR ''='' \<and> rest = [] then
                     (if i3 mod 4 = 0
                      then Some [of_nat (i1 * 4 + i2 div 16), of_nat (i2 mod 16 * 16 + i3 div 4)]
                      else None)
                   else
                     (case (b64_index c4, b64decode_canonical rest) of
                        (Some i4, Some bs) \<Rightarrow>
                          Some (of_nat (i1 * 4 + i2 div 16) # of_nat (i2 mod 16 * 16 + i3 div 4)
                                  # of_nat (i3 mod 4 * 64 + i4) # bs)
                      | _ \<Rightarrow> None))))
      | _ \<Rightarrow> None)"
| "b64decode_canonical _ = None"

section \<open>The ledger libraries\<close>

text \<open>
  The functions of \<^verbatim>\<open>base64\<close>, \<^verbatim>\<open>solders\<close> and \<^verbatim>\<open>spl\<close> that the client
  calls and whose results it only passes on. They are parameters of the model:
  \<^item> \<open>b64decode\<close> is \<^verbatim>\<open>base64.b64decode\<close> on a string (\<open>None\<close>: it raises);
  \<^item> \<open>from_bytes\<close> is \<^verbatim>\<open>VersionedTransaction.from_bytes\<close> (\<open>None\<close>: it raises) and
    \<open>to_bytes\<close> is \<^verbatim>\<open>bytes(tx)\<close>;
  \<^item> \<open>try_sign\<close> gives the signatures of the keypairs over a message, in the order of the
    message's signer slots (\<open>None\<close>: the keypairs do not fill the slots);
  \<^item> \<open>str_pubkey\<close> is \<^verbatim>\<open>str(pubkey)\<close>;
  \<^item> \<open>pda_hash\<close> hashes seeds and a program id to a candidate address, and \<open>on_curve\<close>
    tells whether a candidate is a point of the curve;
  \<^item> the two well-known program ids of the token programs.
\<close>

record 'm library =
  b64decode :: "string \<Rightarrow> bytes option"
  from_bytes :: "bytes \<Rightarrow> 'm VersionedTransaction option"
  to_bytes :: "'m VersionedTransaction \<Rightarrow> bytes"
  try_sign :: "'m \<Rightarrow> Keypair list \<Rightarrow> bytes list option"
  str_pubkey :: "PublicKey \<Rightarrow> string"
  pda_hash :: "bytes list \<Rightarrow> PublicKey \<Rightarrow> PublicKey"
  on_curve :: "PublicKey \<Rightarrow> bool"
  TOKEN_PROGRAM_ID :: PublicKey
  ASSOCIATED_TOKEN_PROGRAM_ID :: PublicKey

text \<open>
  \<^verbatim>\<open>VersionedTransaction(message, keypairs)\<close>: the transaction of that message with the
  signatures of the keypairs.
\<close>

definition VersionedTransaction_new ::
  "'m library \<Rightarrow> 'm \<Rightarrow> Keypair list \<Rightarrow> exn + 'm VersionedTransaction" where
  "VersionedTransaction_new L msg keypairs =
     (case try_sign L msg keypairs of
        None \<Rightarrow> Inl SignerError
      | Some sigs \<Rightarrow> Inr \<lparr>message = msg, signatures = sigs\<rparr>)"

text \<open>\<^verbatim>\<open>base64.b64decode(v)\<close> on a value read from JSON: only a string can be decoded.\<close>

definition py_b64decode :: "'m library \<Rightarrow> json \<Rightarrow> exn + bytes" where
  "py_b64decode L v =
     (case v of
        JStr s \<Rightarrow> (case b64decode L s of None \<Rightarrow> Inl BinasciiError | Some bs \<Rightarrow> Inr bs)
      | _ \<Rightarrow> Inl TypeError)"

section \<open>The client: \<^verbatim>\<open>main.py\<close>\<close>

definition BASE_URL :: string where
  "BASE_URL = ''http://168.119.187.186:5000''"

subsection \<open>Fetch\<close>

text \<open>
  The request of \<^verbatim>\<open>requests.post(f"{BASE_URL}/{route}", json=body)\<close>: no timeout is
  passed, so the library's default \<^verbatim>\<open>None\<close> applies.
\<close>

definition post_request :: "string \<Rightarrow> json \<Rightarrow> request" where
  "post_request route body =
     \<lparr>http_method = POST, url = BASE_URL @ ''/'' @ route, req_json = Some body, timeout = None\<rparr>"

definition get_request :: "string \<Rightarrow> request" where
  "get_request route =
     \<lparr>http_method = GET, url = BASE_URL @ ''/'' @ route, req_json = None, timeout = None\<rparr>"

text \<open>The requests that a call added to the log.\<close>

definition new_requests :: "'w net \<Rightarrow> 'w net \<Rightarrow> request list" where
  "new_requests n n' = drop (length (sent n)) (sent n')"

definition fetch_unsigned ::
  "'m library \<Rightarrow> 'w server \<Rightarrow> string \<Rightarrow> json \<Rightarrow> 'w net \<Rightarrow> 'm VersionedTransaction result \<times> 'w net" where
  "fetch_unsigned L srv route body n =
     (case requests_post srv (BASE_URL @ ''/'' @ route) body None n of
        (Hang, n') \<Rightarrow> (Hang, n')
      | (Raise e, n') \<Rightarrow> (Raise e, n')
      | (Return res, n') \<Rightarrow>
          (case raise_for_status res of
             Some e \<Rightarrow> (Raise e, n')
           | None \<Rightarrow>
               (case response_json res of
                  Inl e \<Rightarrow> (Raise e, n')
                | Inr data \<Rightarrow>
                    (case getitem data ''tx'' of
                       Inl e \<Rightarrow> (Raise e, n')
                     | Inr v \<Rightarrow>
                         (case py_b64decode L v of
                            Inl e \<Rightarrow> (Raise e, n')
                          | Inr tx_bytes \<Rightarrow>
                              (case from_bytes L tx_bytes of
                                 None \<Rightarrow> (Raise DeserializeError, n')
                               | Some tx \<Rightarrow> (Return tx, n')))))))"

subsection \<open>Sign and broadcast\<close>

definition sign_and_broadcast ::
  "'m library \<Rightarrow> 'w server \<Rightarrow> 'm VersionedTransaction \<Rightarrow> Keypair \<Rightarrow> 'w net \<Rightarrow> json result \<times> 'w net" where
  "sign_and_broadcast L srv tx payer n =
     (case VersionedTransaction_new L (message tx) [payer] of
        Inl e \<Rightarrow> (Raise e, n)
      | Inr signed_tx \<Rightarrow>
          (let raw = to_bytes L signed_tx;
               signed_b64 = b64encode raw
           in case requests_post srv (BASE_URL @ ''/broadcast'')
                     (JDict [(''tx'', JStr signed_b64)]) None n of
                (Hang, n') \<Rightarrow> (Hang, n')
              | (Raise e, n') \<Rightarrow> (Raise e, n')
              | (Return res, n') \<Rightarrow>
                  (case raise_for_status res of
                     Some e \<Rightarrow> (Raise e, n')
                   | None \<Rightarrow>
                       (case response_json res of
                          Inl e \<Rightarrow> (Raise e, n')
                        | Inr data \<Rightarrow>
                            (case dict_get data ''sig'' of
                               Inl e \<Rightarrow> (Raise e, n')
                             | Inr sg \<Rightarrow> (Return sg, n'))))))"

text \<open>The request that carries a signed transaction to the broadcast endpoint.\<close>

definition broadcast_request :: "'m library \<Rightarrow> 'm VersionedTransaction \<Rightarrow> request" where
  "broadcast_request L signed_tx =
     post_request ''broadcast'' (JDict [(''tx'', JStr (b64encode (to_bytes L signed_tx)))])"

subsection \<open>The mutating operations\<close>

text \<open>
  Each operation fetches the unsigned transaction of its route and hands it to
  \<open>sign_and_broadcast\<close>; an exception of the fetch ends the call.
\<close>

definition then_sign_and_broadcast ::
  "'m library \<Rightarrow> 'w server \<Rightarrow> Keypair \<Rightarrow> 'm VersionedTransaction result \<times> 'w net \<Rightarrow> json result \<times> 'w net" where
  "then_sign_and_broadcast L srv payer fetched =
     (case fetched of
        (Hang, n') \<Rightarrow> (Hang, n')
      | (Raise e, n') \<Rightarrow> (Raise e, n')
      | (Return tx, n') \<Rightarrow> sign_and_broadcast L srv tx payer n')"

definition create_user_body :: "'m library \<Rightarrow> string \<Rightarrow> Keypair \<Rightarrow> json" where
  "create_user_body L user_id_b64 payer =
     JDict [(''payer_pubkey'', JStr (str_pubkey L (pubkey payer))),
            (''user_id'', JStr user_id_b64)]"




definition transfer_body ::
  "'m library \<Rightarrow> string \<Rightarrow> int \<Rightarrow> Keypair \<Rightarrow> string \<Rightarrow> string \<Rightarrow> string \<Rightarrow> json" where
  "transfer_body L user_id_b64 amount payer mint_pubkey treasury_account user_token_account =
     JDict [(''payer_pubkey'', JStr (str_pubkey L (pubkey payer))),
            (''mint_pubkey'', JStr mint_pubkey),
            (''from_id'', JStr user_id_b64),
            (''to_id'', JStr user_id_b64),
            (''amount'', JInt amount),
            (''from_token_account'', JStr treasury_account),
            (''to_token_account'', JStr user_token_account)]"

definition transfer_from_treasury ::
  "'m library \<Rightarrow> 'w server \<Rightarrow> string \<Rightarrow> int \<Rightarrow> Keypair \<Rightarrow> string \<Rightarrow> string \<Rightarrow> string \<Rightarrow> 'w net
     \<Rightarrow> json result \<times> 'w net" where
  "transfer_from_treasury L srv user_id_b64 amount payer mint_pubkey treasury_account
       user_token_account n =
     then_sign_and_broadcast L srv payer
       (fetch_unsigned L srv ''transfer''
          (transfer_body L user_id_b64 amount payer mint_pubkey treasury_account
             user_token_account) n)"



subsection \<open>The queries\<close>

text \<open>The three queries end the same way: the status is checked and the body is parsed.\<close>

definition checked_json :: "response result \<times> 'w net \<Rightarrow> json result \<times> 'w net" where
  "checked_json answered =
     (case answered of
        (Hang, n') \<Rightarrow> (Hang, n')
      | (Raise e, n') \<Rightarrow> (Raise e, n')
      | (Return res, n') \<Rightarrow>
          (case raise_for_status res of
             Some e \<Rightarrow> (Raise e, n')
           | None \<Rightarrow>
               (case response_json res of
                  Inl e \<Rightarrow> (Raise e, n')
                | Inr data \<Rightarrow> (Return data, n'))))"

definition balance_user :: "'w server \<Rightarrow> string \<Rightarrow> 'w net \<Rightarrow> json result \<times> 'w net" where
  "balance_user srv user_id_b64 n =
     checked_json
       (requests_post srv (BASE_URL @ ''/balance_user'') (JDict [(''user_id'', JStr user_id_b64)])
          None n)"

definition total_supply :: "'w server \<Rightarrow> 'w net \<Rightarrow> json result \<times> 'w net" where
  "total_supply srv n = checked_json (requests_get srv (BASE_URL @ ''/total_supply'') None n)"

definition balance_treasury :: "'w server \<Rightarrow> 'w net \<Rightarrow> json result \<times> 'w net" where
  "balance_treasury srv n =
     checked_json (requests_get srv (BASE_URL @ ''/balance_treasury'') None n)"

subsection \<open>The user identifier of \<^verbatim>\<open>main\<close>\<close>

text \<open>
  Lines 182 and 183: \<open>sample\<close> is \<^verbatim>\<open>SAMPLE_USER_ID.encode("utf-8")\<close>, the bytes of the
  identifier.
\<close>

definition user_id_bytes :: "bytes \<Rightarrow> bytes" where
  "user_id_bytes sample = ljust 32 0 sample"

definition user_id_b64 :: "bytes \<Rightarrow> string" where
  "user_id_b64 sample = b64encode (user_id_bytes sample)"

section \<open>Address derivation\<close>

text \<open>
  Modelled from the spec: \<^verbatim>\<open>Pubkey.find_program_address\<close> of the \<^verbatim>\<open>solders\<close>
  library, which is not part of the repository. The derivation tries the bump values from
  255 downwards; the first bump whose hashed candidate is off the curve gives the address,
  and the derivation fails when none of the 256 bumps does. The bump is appended to the
  seeds as one more seed of a single byte.
\<close>

definition candidate :: "'m library \<Rightarrow> bytes list \<Rightarrow> PublicKey \<Rightarrow> nat \<Rightarrow> PublicKey" where
  "candidate L seeds program_id bump = pda_hash L (seeds @ [[of_nat bump]]) program_id"

fun try_bumps :: "'m library \<Rightarrow> bytes list \<Rightarrow> PublicKey \<Rightarrow> nat \<Rightarrow> exn + PublicKey \<times> nat" where
  "try_bumps L seeds program_id 0 =
     (if on_curve L (candidate L seeds program_id 0) then Inl DerivationExhaustedError
      else Inr (candidate L seeds program_id 0, 0))"
| "try_bumps L seeds program_id (Suc bump) =
     (if on_curve L (candidate L seeds program_id (Suc bump)) then try_bumps L seeds program_id bump
      else Inr (candidate L seeds program_id (Suc bump), Suc bump))"

definition find_program_address ::
  "'m library \<Rightarrow> bytes list \<Rightarrow> PublicKey \<Rightarrow> exn + PublicKey \<times> nat" where
  "find_program_address L seeds program_id = try_bumps L seeds program_id 255"

text \<open>
  Modelled from the spec: one evaluation of the derivation, as the run of the search that
  the spec describes. \<open>bump_search L seeds program_id bump r\<close>: the search that is about to
  try \<open>bump\<close> ends with \<open>r\<close>.
\<close>

inductive bump_search ::
  "'m library \<Rightarrow> bytes list \<Rightarrow> PublicKey \<Rightarrow> nat \<Rightarrow> exn + PublicKey \<times> nat \<Rightarrow> bool"
  for L :: "'m library" and seeds :: "bytes list" and program_id :: PublicKey where
  off_curve:
    "\<not> on_curve L (candidate L seeds program_id bump) \<Longrightarrow>
       bump_search L seeds program_id bump (Inr (candidate L seeds program_id bump, bump))"
| decrement:
    "on_curve L (candidate L seeds program_id (Suc bump)) \<Longrightarrow>
       bump_search L seeds program_id bump r \<Longrightarrow>
       bump_search L seeds program_id (Suc bump) r"
| exhausted:
    "on_curve L (candidate L seeds program_id 0) \<Longrightarrow>
       bump_search L seeds program_id 0 (Inl DerivationExhaustedError)"

text \<open>
  Modelled from the spec: \<^verbatim>\<open>get_associated_token_address\<close> of the \<^verbatim>\<open>spl\<close> library,
  the derivation with the seed triple (owner, token program id, mint) under the
  associated-token program id; it keeps the address and drops the bump.
\<close>

definition get_associated_token_address ::
  "'m library \<Rightarrow> PublicKey \<Rightarrow> PublicKey \<Rightarrow> exn + PublicKey" where
  "get_associated_token_address L owner mint =
     (case find_program_address L [owner, TOKEN_PROGRAM_ID L, mint]
             (ASSOCIATED_TOKEN_PROGRAM_ID L) of
        Inl e \<Rightarrow> Inl e
      | Inr (address, bump) \<Rightarrow> Inr address)"

text \<open>
  Lines 203 to 206 of \<^verbatim>\<open>main\<close>: the treasury address, derived from the seeds
  \<^verbatim>\<open>b"treasury"\<close> and the bytes of the mint under the program id of the configuration.
\<close>

definition treasury_seed :: bytes where
  "treasury_seed = [0x74, 0x72, 0x65, 0x61, 0x73, 0x75, 0x72, 0x79]"

definition treasury_account :: "'m library \<Rightarrow> PublicKey \<Rightarrow> PublicKey \<Rightarrow> exn + PublicKey \<times> nat" where
  "treasury_account L mint_pk program_pk =
     find_program_address L [treasury_seed, mint_pk] program_pk"

section \<open>The associated token account\<close>

text \<open>
  The RPC client of the ledger node, a parameter of the model: \<open>get_account_info\<close>
  answers with the account at an address (\<open>None\<close> when there is none) and
  \<open>send_transaction\<close> submits a transaction signed by a keypair. Either may raise, and
  either may change the node's state. \<open>submitted\<close> logs the submissions.
\<close>

datatype instruction = create_associated_token_account PublicKey PublicKey PublicKey

type_synonym Transaction = "instruction list"

text \<open>
  Line 11 imports \<^verbatim>\<open>Transaction\<close> from \<^verbatim>\<open>solders.transaction\<close>. The constructor of
  that class takes the signing keypairs, a message and a recent blockhash, so the call
  \<^verbatim>\<open>Transaction()\<close> of line 160, which passes none of them, raises \<^verbatim>\<open>TypeError\<close>.
  The class has no method \<^verbatim>\<open>add\<close> either (that is the older
  \<^verbatim>\<open>solana.transaction\<close> interface), so \<^verbatim>\<open>tx.add\<close> would raise
  \<^verbatim>\<open>AttributeError\<close> on any transaction it were given.
\<close>

definition Transaction_new :: "exn + Transaction" where
  "Transaction_new = Inl TypeError"

definition Transaction_add :: "Transaction \<Rightarrow> instruction \<Rightarrow> exn + Transaction" where
  "Transaction_add tx i = Inl AttributeError"

record ('c, 'a) Client =
  get_account_info :: "'c \<Rightarrow> PublicKey \<Rightarrow> (exn + 'a option) \<times> 'c"
  send_transaction :: "'c \<Rightarrow> Transaction \<Rightarrow> Keypair \<Rightarrow> (exn + string) \<times> 'c"

record 'c chain =
  ledger :: 'c
  submitted :: "(Transaction \<times> Keypair) list"

definition get_or_create_associated_token_account ::
  "'m library \<Rightarrow> ('c, 'a) Client \<Rightarrow> Keypair \<Rightarrow> PublicKey \<Rightarrow> 'c chain \<Rightarrow> PublicKey result \<times> 'c chain" where
  "get_or_create_associated_token_account L client payer mint ch =
     (case get_associated_token_address L (pubkey payer) mint of
        Inl e \<Rightarrow> (Raise e, ch)
      | Inr ata \<Rightarrow>
          (case get_account_info client (ledger ch) ata of
             (Inl e, c1) \<Rightarrow> (Raise e, ch\<lparr>ledger := c1\<rparr>)
           | (Inr (Some account), c1) \<Rightarrow> (Return ata, ch\<lparr>ledger := c1\<rparr>)
           | (Inr None, c1) \<Rightarrow>
               (case Transaction_new of
                  Inl e \<Rightarrow> (Raise e, ch\<lparr>ledger := c1\<rparr>)
                | Inr tx0 \<Rightarrow>
                    (case Transaction_add tx0
                            (create_associated_token_account (pubkey payer) (pubkey payer) mint) of
                       Inl e \<Rightarrow> (Raise e, ch\<lparr>ledger := c1\<rparr>)
                     | Inr tx \<Rightarrow>
                         (case send_transaction client c1 tx payer of
                            (Inl e, c2) \<Rightarrow>
                              (Raise e, \<lparr>ledger = c2, submitted = submitted ch @ [(tx, payer)]\<rparr>)
                          | (Inr sg, c2) \<Rightarrow>
                              (Return ata,
                               \<lparr>ledger = c2, submitted = submitted ch @ [(tx, payer)]\<rparr>))))))"

section \<open>A concrete library, service and node\<close>

text \<open>
  Small instances of the parameters, on which the definitions evaluate: a library whose
  messages are byte strings, services that answer by the request alone, and a ledger node
  whose state is the list of the addresses that hold an account.
\<close>

text \<open>
  The wire format of the example library. Every byte of a signature follows the tag 1,
  the tag 2 ends a signature, the tag 0 ends the signatures, and the message is the rest.
  \<open>read_tx\<close> reads the format back; it keeps the signatures read so far, the last one
  first, and the bytes of the signature being read, the last one first.
\<close>

definition write_signature :: "bytes \<Rightarrow> bytes" where
  "write_signature s = concat (map (\<lambda>b. [1, b]) s) @ [2]"

definition write_tx :: "bytes VersionedTransaction \<Rightarrow> bytes" where
  "write_tx tx = concat (map write_signature (signatures tx)) @ [0] @ message tx"

fun read_tx :: "bytes list \<Rightarrow> bytes \<Rightarrow> bytes \<Rightarrow> bytes VersionedTransaction option" where
  "read_tx seen cur [] = None"
| "read_tx seen cur (t # rest) =
     (if t = 0 then
        (if cur = [] then Some \<lparr>message = rest, signatures = rev seen\<rparr> else None)
      else if t = 2 then read_tx (rev cur # seen) [] rest
      else if t = 1 then
        (case rest of [] \<Rightarrow> None | b # rest' \<Rightarrow> read_tx seen (b # cur) rest')
      else None)"

definition example_library :: "bytes library" where
  "example_library =
     \<lparr>b64decode = b64decode_canonical,
      from_bytes = read_tx [] [],
      to_bytes = write_tx,
      try_sign = (\<lambda>msg keypairs.
         if keypairs = [] then None else Some (map (\<lambda>k. secret_key k @ msg) keypairs)),
      str_pubkey = b64encode,
      pda_hash = (\<lambda>seeds program_id. program_id @ concat seeds),
      on_curve = (\<lambda>a. 254 \<le> unat (last a)),
      TOKEN_PROGRAM_ID = [6],
      ASSOCIATED_TOKEN_PROGRAM_ID = [140]\<rparr>"

definition example_payer :: Keypair where
  "example_payer = \<lparr>secret_key = [1, 2], pubkey = [3, 4]\<rparr>"

definition example_mint :: PublicKey where
  "example_mint = [5]"

definition example_tx :: "bytes VersionedTransaction" where
  "example_tx = \<lparr>message = [1, 2, 3], signatures = []\<rparr>"

definition answering :: "(request \<Rightarrow> reply) \<Rightarrow> unit server" where
  "answering f w rq = (f rq, w)"

definition start :: "unit net" where
  "start = \<lparr>remote = (), sent = []\<rparr>"

text \<open>
  A service that accepts everything: a fetch is answered with the transaction
  \<open>example_tx\<close> (\<^verbatim>\<open>AAECAw==\<close> is the base64 text of its bytes 0, 1, 2, 3), a
  broadcast with a confirmation id, a query with an amount.
\<close>

definition accepting :: "request \<Rightarrow> reply" where
  "accepting rq =
     (if url rq = BASE_URL @ ''/broadcast''
      then Reply \<lparr>status_code = 200, body_json = Some (JDict [(''sig'', JStr ''5VERv8'')])\<rparr>
      else if http_method rq = GET
      then Reply \<lparr>status_code = 200,
                  body_json = Some (JDict [(''amount'', JInt 1000000), (''decimals'', JInt 6)])\<rparr>
      else Reply \<lparr>status_code = 200, body_json = Some (JDict [(''tx'', JStr ''AAECAw=='')])\<rparr>)"


text \<open>A service whose broadcast endpoint answers 200 with an empty confirmation id.\<close>

definition empty_sig :: "request \<Rightarrow> reply" where
  "empty_sig rq = Reply \<lparr>status_code = 200, body_json = Some (JDict [(''sig'', JStr [])])\<rparr>"

text \<open>A service that never answers.\<close>

definition silent :: "request \<Rightarrow> reply" where
  "silent rq = Silent"

text \<open>
  A node that reports an account at exactly the addresses of its state and accepts every
  transaction.
\<close>

definition example_node :: "(PublicKey list, bytes) Client" where
  "example_node =
     \<lparr>get_account_info = (\<lambda>c a. (Inr (if a \<in> set c then Some [] else None), c)),
      send_transaction = (\<lambda>c tx payer. (Inr ''2id3YC'', c))\<rparr>"

definition empty_chain :: "PublicKey list chain" where
  "empty_chain = \<lparr>ledger = [], submitted = []\<rparr>"

section \<open>What a request does to the log\<close>

lemma requests_request_sent: "sent (snd (requests_request srv rq n)) = sent n @ [rq]"
  by (simp add: requests_request_def Let_def split: prod.splits reply.splits option.splits)

lemma requests_request_Return:
  "requests_request srv rq n = (Return res, n') \<longleftrightarrow>
     (\<exists>w'. srv (remote n) rq = (Reply res, w') \<and> n' = \<lparr>remote = w', sent = sent n @ [rq]\<rparr>)"
  by (auto simp: requests_request_def Let_def split: prod.splits reply.splits option.splits)

lemma requests_request_Silent:
  "fst (srv (remote n) rq) = Silent \<Longrightarrow> timeout rq = None \<Longrightarrow>
     fst (requests_request srv rq n) = Hang"
  by (auto simp: requests_request_def Let_def split: prod.splits reply.splits option.splits)

lemma requests_post_request:
  "requests_post srv (BASE_URL @ CHR ''/'' # route) body None = requests_request srv (post_request route body)"
  by (simp add: requests_post_def post_request_def)

lemma fetch_unsigned_sent:
  "sent (snd (fetch_unsigned L srv route body n)) = sent n @ [post_request route body]"
proof -
  obtain r n' where rq: "requests_request srv (post_request route body) n = (r, n')"
    by (cases "requests_request srv (post_request route body) n")
  then have "sent n' = sent n @ [post_request route body]"
    using requests_request_sent [of srv "post_request route body" n] by simp
  with rq show ?thesis
    by (simp add: fetch_unsigned_def requests_post_request
        split: result.splits option.splits sum.splits)
qed

section \<open>Fetch: an error status never yields a transaction\<close>


lemma new_requests_append: "sent n' = sent n @ xs \<Longrightarrow> new_requests n n' = xs"
  by (simp add: new_requests_def)

lemma new_requests_self: "new_requests n n = []"
  by (simp add: new_requests_def)

lemma new_requests_fetch_unsigned:
  "new_requests n (snd (fetch_unsigned L srv route body n)) = [post_request route body]"
  by (simp add: new_requests_append fetch_unsigned_sent)

lemma requests_post_broadcast:
  "requests_post srv (BASE_URL @ ''/broadcast'') (JDict [(''tx'', JStr (b64encode (to_bytes L stx)))]) None
     = requests_request srv (broadcast_request L stx)"
  by (simp add: requests_post_def broadcast_request_def post_request_def)

lemma sign_and_broadcast_unsigned:
  "try_sign L (message tx) [payer] = None \<Longrightarrow>
     sign_and_broadcast L srv tx payer n = (Raise SignerError, n)"
  by (simp add: sign_and_broadcast_def VersionedTransaction_new_def)

lemma sign_and_broadcast_sent:
  assumes "try_sign L (message tx) [payer] = Some sigs"
  shows "sent (snd (sign_and_broadcast L srv tx payer n)) =
           sent n @ [broadcast_request L \<lparr>message = message tx, signatures = sigs\<rparr>]"
proof -
  let ?rq = "broadcast_request L \<lparr>message = message tx, signatures = sigs\<rparr>"
  obtain r n' where rq: "requests_request srv ?rq n = (r, n')"
    by (cases "requests_request srv ?rq n")
  then have "sent n' = sent n @ [?rq]"
    using requests_request_sent [of srv ?rq n] by simp
  with rq assms show ?thesis
    by (simp add: sign_and_broadcast_def VersionedTransaction_new_def requests_post_broadcast
        split: result.splits option.splits sum.splits)
qed

lemma sign_and_broadcast_extends:
  "\<exists>xs. sent (snd (sign_and_broadcast L srv tx payer n)) = sent n @ xs"
proof (cases "try_sign L (message tx) [payer]")
  case None
  then show ?thesis by (simp add: sign_and_broadcast_unsigned)
next
  case (Some sigs)
  then show ?thesis by (simp add: sign_and_broadcast_sent)
qed

lemma b64_index_char: "i < 64 \<Longrightarrow> b64_index (b64_char i) = Some i"
proof -
  have "\<forall>i \<in> set [0..<64]. b64_index (b64_char i) = Some i"
    unfolding b64_index_def b64_char_def b64_alphabet_def by code_simp
  then show "i < 64 \<Longrightarrow> b64_index (b64_char i) = Some i" by simp
qed

lemma b64_char_not_pad: "i < 64 \<Longrightarrow> b64_char i \<noteq> CHR ''=''"
proof -
  have "\<forall>i \<in> set [0..<64]. b64_char i \<noteq> CHR ''=''"
    unfolding b64_char_def b64_alphabet_def by code_simp
  then show "i < 64 \<Longrightarrow> b64_char i \<noteq> CHR ''=''" by simp
qed

lemma unat_byte_less: "unat (a :: byte) < 256"
  using unsigned_less [of a, where ?'a = nat] by simp

lemma sextet_bounds:
  fixes a b c :: byte
  shows "unat a div 4 < 64" "unat a mod 4 * 16 < 64" "unat a mod 4 * 16 + unat b div 16 < 64"
    "unat b mod 16 * 4 < 64" "unat b mod 16 * 4 + unat c div 64 < 64" "unat c mod 64 < 64"
  using unat_byte_less [of a] unat_byte_less [of b] unat_byte_less [of c] by auto

lemma byte_div_facts:
  fixes b :: byte
  shows "unat b div 16 div 16 = 0" "unat b div 16 mod 16 = unat b div 16"
    "unat b div 64 mod 4 = unat b div 64" "unat b div 64 div 4 = 0"
  using unat_byte_less [of b] by auto

lemma b64decode_canonical_b64encode: "b64decode_canonical (b64encode bs) = Some bs"
proof (induction bs rule: b64encode.induct)
  case 1
  show ?case by simp
next
  case (2 a)
  show ?case
    by (simp add: b64_index_char sextet_bounds byte_div_facts del: of_nat_add of_nat_mult)
next
  case (3 a b)
  show ?case
    by (simp add: b64_index_char b64_char_not_pad sextet_bounds byte_div_facts
        del: of_nat_add of_nat_mult)
next
  case (4 a b c rest)
  then show ?case
    by (simp add: b64_index_char b64_char_not_pad sextet_bounds byte_div_facts
        del: of_nat_add of_nat_mult)
qed


section \<open>Sign: the signed transaction carries the fetched message\<close>

text \<open>
  Claim C1. For every fetched transaction and every keypair: when the keypair signs the
  message, \<open>sign_and_broadcast\<close> sends exactly one request, and decoding what it sends
  gives back the fetched message unchanged. The base64 text of the request decodes to
  bytes that the library's \<^verbatim>\<open>from_bytes\<close> reads as a transaction whose message is the
  message of the fetched transaction and whose signatures are those of the one supplied
  keypair over that message: the transaction \<^verbatim>\<open>VersionedTransaction(tx.message, [payer])\<close>.
  The library's contract is the hypothesis: \<^verbatim>\<open>from_bytes\<close> reads back what
  \<^verbatim>\<open>bytes\<close> writes. When the keypair cannot sign the message nothing is sent and the
  call raises.
\<close>

theorem signed_transaction_bound_to_message:
  "(try_sign L (message tx) [payer] = None \<longrightarrow>
      sign_and_broadcast L srv tx payer n = (Raise SignerError, n))
   \<and> ((\<forall>t. from_bytes L (to_bytes L t) = Some t)
       \<and> try_sign L (message tx) [payer] = Some sigs \<longrightarrow>
        (\<exists>wire raw decoded.
           new_requests n (snd (sign_and_broadcast L srv tx payer n)) =
             [post_request ''broadcast'' (JDict [(''tx'', JStr wire)])] \<and>
           b64decode_canonical wire = Some raw \<and>
           from_bytes L raw = Some decoded \<and>
           message decoded = message tx \<and>
           signatures decoded = sigs \<and>
           VersionedTransaction_new L (message tx) [payer] = Inr decoded))"
proof (intro conjI impI)
  assume "try_sign L (message tx) [payer] = None"
  then show "sign_and_broadcast L srv tx payer n = (Raise SignerError, n)"
    by (rule sign_and_broadcast_unsigned)
next
  assume h: "(\<forall>t. from_bytes L (to_bytes L t) = Some t)
       \<and> try_sign L (message tx) [payer] = Some sigs"
  let ?stx = "\<lparr>message = message tx, signatures = sigs\<rparr>"
  from h have s: "try_sign L (message tx) [payer] = Some sigs" by simp
  from h have rb: "from_bytes L (to_bytes L ?stx) = Some ?stx" by simp
  from s have new: "VersionedTransaction_new L (message tx) [payer] = Inr ?stx"
    by (simp add: VersionedTransaction_new_def)
  have rq: "new_requests n (snd (sign_and_broadcast L srv tx payer n)) =
      [post_request ''broadcast'' (JDict [(''tx'', JStr (b64encode (to_bytes L ?stx)))])]"
    using sign_and_broadcast_sent [OF s, of srv n]
    by (simp add: new_requests_append broadcast_request_def)
  have dec: "b64decode_canonical (b64encode (to_bytes L ?stx)) = Some (to_bytes L ?stx)"
    by (rule b64decode_canonical_b64encode)
  from rq dec rb new show "\<exists>wire raw decoded.
           new_requests n (snd (sign_and_broadcast L srv tx payer n)) =
             [post_request ''broadcast'' (JDict [(''tx'', JStr wire)])] \<and>
           b64decode_canonical wire = Some raw \<and>
           from_bytes L raw = Some decoded \<and>
           message decoded = message tx \<and>
           signatures decoded = sigs \<and>
           VersionedTransaction_new L (message tx) [payer] = Inr decoded"
    by (intro exI [of _ "b64encode (to_bytes L ?stx)"] exI [of _ "to_bytes L ?stx"]
        exI [of _ ?stx]) simp
qed

section \<open>Broadcast: the confirmation id is the \<^verbatim>\<open>sig\<close> field of the answer\<close>

text \<open>
  Claim C4, amended. \<open>sign_and_broadcast\<close> sends the base64 text of the signed
  transaction's bytes to the broadcast endpoint and, when the answer is a success whose
  body is a JSON object with a \<^verbatim>\<open>sig\<close> field, returns the value of that field as it
  is. The client does not check that the value is not empty.
\<close>

theorem broadcast_returns_sig_field:
  assumes "try_sign L (message tx) [payer] = Some sigs"
    and "srv (remote n) (broadcast_request L \<lparr>message = message tx, signatures = sigs\<rparr>) = (Reply res, w')"
    and "ok res"
    and "body_json res = Some (JDict kv)"
    and "map_of kv ''sig'' = Some sg"
  shows "sign_and_broadcast L srv tx payer n =
           (Return sg,
            \<lparr>remote = w',
             sent = sent n @ [broadcast_request L \<lparr>message = message tx, signatures = sigs\<rparr>]\<rparr>)"
proof -
  let ?rq = "broadcast_request L \<lparr>message = message tx, signatures = sigs\<rparr>"
  from assms(2) have "requests_request srv ?rq n = (Return res, \<lparr>remote = w', sent = sent n @ [?rq]\<rparr>)"
    by (simp add: requests_request_Return)
  with assms show ?thesis
    by (simp add: sign_and_broadcast_def VersionedTransaction_new_def requests_post_broadcast
        ok_def response_json_def)
qed

text \<open>
  Claim C4 as stated fails: a broadcast endpoint that answers 200 with an empty \<^verbatim>\<open>sig\<close>
  makes the call return the empty string.
\<close>

theorem broadcast_empty_confirmation_id:
  "fst (sign_and_broadcast example_library (answering empty_sig) example_tx example_payer start)
     = Return (JStr [])
   \<and> ok \<lparr>status_code = 200, body_json = Some (JDict [(''sig'', JStr [])])\<rparr>"
  by (simp add: sign_and_broadcast_def VersionedTransaction_new_def example_library_def
      example_tx_def example_payer_def start_def answering_def empty_sig_def requests_post_def
      requests_request_def raise_for_status_def response_json_def ok_def)

section \<open>The operations: fetch, then sign and broadcast\<close>

lemma new_requests_sign_and_broadcast:
  "new_requests n (snd (sign_and_broadcast L srv tx payer n)) =
     (case try_sign L (message tx) [payer] of
        None \<Rightarrow> []
      | Some sigs \<Rightarrow> [broadcast_request L \<lparr>message = message tx, signatures = sigs\<rparr>])"
proof (cases "try_sign L (message tx) [payer]")
  case None
  then show ?thesis by (simp add: sign_and_broadcast_unsigned new_requests_self)
next
  case (Some sigs)
  then show ?thesis by (simp add: sign_and_broadcast_sent new_requests_append)
qed



lemma pipeline_requests:
  "new_requests n (snd (then_sign_and_broadcast L srv payer (fetch_unsigned L srv route body n)))
     = post_request route body #
       (case fetch_unsigned L srv route body n of
          (Return tx, n') \<Rightarrow> new_requests n' (snd (sign_and_broadcast L srv tx payer n'))
        | _ \<Rightarrow> [])"
proof -
  obtain r n' where f: "fetch_unsigned L srv route body n = (r, n')"
    by (cases "fetch_unsigned L srv route body n")
  then have s1: "sent n' = sent n @ [post_request route body]"
    using fetch_unsigned_sent [of L srv route body n] by simp
  show ?thesis
  proof (cases r)
    case (Return tx)
    obtain xs where xs: "sent (snd (sign_and_broadcast L srv tx payer n')) = sent n' @ xs"
      using sign_and_broadcast_extends [of L srv tx payer n'] by blast
    with f Return s1 show ?thesis
      by (simp add: then_sign_and_broadcast_def new_requests_def)
  next
    case (Raise e)
    with f s1 show ?thesis by (simp add: then_sign_and_broadcast_def new_requests_def)
  next
    case Hang
    with f s1 show ?thesis by (simp add: then_sign_and_broadcast_def new_requests_def)
  qed
qed




section \<open>Transfer: one identifier on both sides\<close>

lemma broadcast_url_not_transfer:
  "url (broadcast_request L stx) \<noteq> BASE_URL @ ''/transfer''"
  by (simp add: broadcast_request_def post_request_def)

text \<open>
  Claim C10. Of the requests that \<open>transfer_from_treasury\<close> sends, exactly one goes to
  the transfer route, and in its body \<^verbatim>\<open>from_id\<close> and \<^verbatim>\<open>to_id\<close> are both the one
  user identifier the caller supplied. The operation takes a single identifier, so it
  cannot ask for a transfer between two different ones.
\<close>

theorem transfer_from_id_is_to_id:
  "filter (\<lambda>rq. url rq = BASE_URL @ ''/transfer'')
     (new_requests n
        (snd (transfer_from_treasury L srv user_id amount payer mint treasury uta n)))
     = [post_request ''transfer'' (transfer_body L user_id amount payer mint treasury uta)]
   \<and> getitem (transfer_body L user_id amount payer mint treasury uta) ''from_id''
        = Inr (JStr user_id)
   \<and> getitem (transfer_body L user_id amount payer mint treasury uta) ''to_id''
        = Inr (JStr user_id)"
proof -
  let ?body = "transfer_body L user_id amount payer mint treasury uta"
  obtain r n' where f: "fetch_unsigned L srv ''transfer'' ?body n = (r, n')"
    by (cases "fetch_unsigned L srv ''transfer'' ?body n")
  have u: "url (post_request ''transfer'' ?body) = BASE_URL @ ''/transfer''"
    by (simp add: post_request_def)
  have "filter (\<lambda>rq. url rq = BASE_URL @ ''/transfer'')
     (new_requests n (snd (transfer_from_treasury L srv user_id amount payer mint treasury uta n)))
     = [post_request ''transfer'' ?body]"
    unfolding transfer_from_treasury_def pipeline_requests
    using u f broadcast_url_not_transfer [of L]
    by (cases r) (simp_all add: new_requests_sign_and_broadcast split: option.splits)
  then show ?thesis by (simp add: transfer_body_def)
qed

section \<open>No call carries a timeout\<close>

lemma checked_json_requests:
  "new_requests n (snd (checked_json (requests_request srv rq n))) = [rq]"
proof -
  obtain r n' where rq: "requests_request srv rq n = (r, n')"
    by (cases "requests_request srv rq n")
  then have "sent n' = sent n @ [rq]"
    using requests_request_sent [of srv rq n] by simp
  with rq show ?thesis
    by (cases r) (simp_all add: checked_json_def new_requests_def split: option.splits sum.splits)
qed

lemma checked_json_Hang:
  "fst (requests_request srv rq n) = Hang \<Longrightarrow> fst (checked_json (requests_request srv rq n)) = Hang"
  by (cases "requests_request srv rq n") (simp add: checked_json_def)

lemma balance_user_request:
  "balance_user srv user_id n =
     checked_json (requests_request srv
       (post_request ''balance_user'' (JDict [(''user_id'', JStr user_id)])) n)"
  by (simp add: balance_user_def requests_post_def post_request_def)

lemma total_supply_request:
  "total_supply srv n = checked_json (requests_request srv (get_request ''total_supply'') n)"
  by (simp add: total_supply_def requests_get_def get_request_def)

lemma balance_treasury_request:
  "balance_treasury srv n =
     checked_json (requests_request srv (get_request ''balance_treasury'') n)"
  by (simp add: balance_treasury_def requests_get_def get_request_def)

lemma fetch_unsigned_Hang:
  "fst (srv (remote n) (post_request route body)) = Silent \<Longrightarrow>
     fst (fetch_unsigned L srv route body n) = Hang"
proof -
  assume "fst (srv (remote n) (post_request route body)) = Silent"
  then have "fst (requests_request srv (post_request route body) n) = Hang"
    by (rule requests_request_Silent) (simp add: post_request_def)
  then show ?thesis
    by (cases "requests_request srv (post_request route body) n")
      (simp add: fetch_unsigned_def requests_post_request)
qed

lemma sign_and_broadcast_Hang:
  assumes "try_sign L (message tx) [payer] = Some sigs"
    and "fst (srv (remote n) (broadcast_request L \<lparr>message = message tx, signatures = sigs\<rparr>)) = Silent"
  shows "fst (sign_and_broadcast L srv tx payer n) = Hang"
proof -
  let ?rq = "broadcast_request L \<lparr>message = message tx, signatures = sigs\<rparr>"
  from assms(2) have "fst (requests_request srv ?rq n) = Hang"
    by (rule requests_request_Silent) (simp add: broadcast_request_def post_request_def)
  with assms(1) show ?thesis
    by (cases "requests_request srv ?rq n")
      (simp add: sign_and_broadcast_def VersionedTransaction_new_def requests_post_broadcast)
qed

text \<open>
  Claim C9, amended. No request of the client carries a timeout: every request that
  \<open>fetch_unsigned\<close>, \<open>sign_and_broadcast\<close>, \<open>balance_user\<close>, \<open>total_supply\<close> and
  \<open>balance_treasury\<close> send has the timeout \<^verbatim>\<open>None\<close>, and none of them takes a timeout
  from its caller. When the service stays silent, the call does not return.
\<close>

theorem network_calls_carry_no_timeout:
  "list_all (\<lambda>rq. timeout rq = None) (new_requests n (snd (fetch_unsigned L srv route body n)))
   \<and> list_all (\<lambda>rq. timeout rq = None) (new_requests n (snd (sign_and_broadcast L srv tx payer n)))
   \<and> list_all (\<lambda>rq. timeout rq = None) (new_requests n (snd (balance_user srv user_id n)))
   \<and> list_all (\<lambda>rq. timeout rq = None) (new_requests n (snd (total_supply srv n)))
   \<and> list_all (\<lambda>rq. timeout rq = None) (new_requests n (snd (balance_treasury srv n)))
   \<and> (fst (srv (remote n) (post_request route body)) = Silent
        \<longrightarrow> fst (fetch_unsigned L srv route body n) = Hang)
   \<and> (try_sign L (message tx) [payer] = Some sigs
        \<and> fst (srv (remote n)
                 (broadcast_request L \<lparr>message = message tx, signatures = sigs\<rparr>)) = Silent
        \<longrightarrow> fst (sign_and_broadcast L srv tx payer n) = Hang)
   \<and> (fst (srv (remote n) (post_request ''balance_user'' (JDict [(''user_id'', JStr user_id)])))
          = Silent
        \<longrightarrow> fst (balance_user srv user_id n) = Hang)
   \<and> (fst (srv (remote n) (get_request ''total_supply'')) = Silent
        \<longrightarrow> fst (total_supply srv n) = Hang)
   \<and> (fst (srv (remote n) (get_request ''balance_treasury'')) = Silent
        \<longrightarrow> fst (balance_treasury srv n) = Hang)"
proof (intro conjI impI)
  show "list_all (\<lambda>rq. timeout rq = None) (new_requests n (snd (fetch_unsigned L srv route body n)))"
    by (simp add: new_requests_fetch_unsigned post_request_def)
  show "list_all (\<lambda>rq. timeout rq = None) (new_requests n (snd (sign_and_broadcast L srv tx payer n)))"
    by (simp add: new_requests_sign_and_broadcast broadcast_request_def post_request_def
        split: option.splits)
  show "list_all (\<lambda>rq. timeout rq = None) (new_requests n (snd (balance_user srv user_id n)))"
    by (simp add: balance_user_request checked_json_requests post_request_def)
  show "list_all (\<lambda>rq. timeout rq = None) (new_requests n (snd (total_supply srv n)))"
    by (simp add: total_supply_request checked_json_requests get_request_def)
  show "list_all (\<lambda>rq. timeout rq = None) (new_requests n (snd (balance_treasury srv n)))"
    by (simp add: balance_treasury_request checked_json_requests get_request_def)
next
  assume "fst (srv (remote n) (post_request route body)) = Silent"
  then show "fst (fetch_unsigned L srv route body n) = Hang"
    by (rule fetch_unsigned_Hang)
next
  assume "try_sign L (message tx) [payer] = Some sigs
        \<and> fst (srv (remote n)
                 (broadcast_request L \<lparr>message = message tx, signatures = sigs\<rparr>)) = Silent"
  then show "fst (sign_and_broadcast L srv tx payer n) = Hang"
    using sign_and_broadcast_Hang by blast
next
  assume "fst (srv (remote n) (post_request ''balance_user'' (JDict [(''user_id'', JStr user_id)])))
          = Silent"
  then have "fst (requests_request srv
      (post_request ''balance_user'' (JDict [(''user_id'', JStr user_id)])) n) = Hang"
    by (rule requests_request_Silent) (simp add: post_request_def)
  then show "fst (balance_user srv user_id n) = Hang"
    by (simp add: balance_user_request checked_json_Hang)
next
  assume "fst (srv (remote n) (get_request ''total_supply'')) = Silent"
  then have "fst (requests_request srv (get_request ''total_supply'') n) = Hang"
    by (rule requests_request_Silent) (simp add: get_request_def)
  then show "fst (total_supply srv n) = Hang"
    by (simp add: total_supply_request checked_json_Hang)
next
  assume "fst (srv (remote n) (get_request ''balance_treasury'')) = Silent"
  then have "fst (requests_request srv (get_request ''balance_treasury'') n) = Hang"
    by (rule requests_request_Silent) (simp add: get_request_def)
  then show "fst (balance_treasury srv n) = Hang"
    by (simp add: balance_treasury_request checked_json_Hang)
qed

text \<open>
  Claim C9 as stated fails: against a service that never answers, the fetch sends its
  request without a timeout and does not come back, where the claim has it raise.
\<close>

theorem fetch_without_timeout_hangs:
  "fst (fetch_unsigned example_library (answering silent) ''create_user''
          (create_user_body example_library ''dXNlcg=='' example_payer) start) = Hang
   \<and> map timeout
        (sent (snd (fetch_unsigned example_library (answering silent) ''create_user''
          (create_user_body example_library ''dXNlcg=='' example_payer) start))) = [None]"
  by (simp add: fetch_unsigned_def requests_post_def requests_request_def answering_def
      silent_def start_def)

section \<open>The user identifier\<close>



section \<open>Address derivation\<close>

lemma bump_search_try_bumps: "bump_search L seeds program_id bump (try_bumps L seeds program_id bump)"
proof (induction bump)
  case 0
  show ?case by (simp add: bump_search.off_curve bump_search.exhausted)
next
  case (Suc bump)
  then show ?case by (simp add: bump_search.off_curve bump_search.decrement)
qed

lemma bump_search_unique:
  "bump_search L seeds program_id bump r \<Longrightarrow> r = try_bumps L seeds program_id bump"
proof (induction rule: bump_search.induct)
  case (off_curve bump)
  then show ?case by (cases bump) simp_all
next
  case (decrement bump r)
  then show ?case by simp
next
  case exhausted
  then show ?case by simp
qed

lemma try_bumps_found:
  "try_bumps L seeds program_id n = Inr (a, bump) \<Longrightarrow>
     bump \<le> n \<and> a = candidate L seeds program_id bump \<and> \<not> on_curve L a"
  by (induction n) (auto split: if_splits)

lemma find_program_address_off_curve:
  "find_program_address L seeds program_id = Inr (a, bump) \<Longrightarrow>
     bump \<le> 255 \<and> a = candidate L seeds program_id bump \<and> \<not> on_curve L a"
  unfolding find_program_address_def by (rule try_bumps_found)

text \<open>
  Claim C5. An evaluation of the derivation is a run of the bump search from 255. Any
  two runs for the same seeds and program id end with the same result, address and bump
  alike, and that result is the one \<open>find_program_address\<close> computes; the same holds for
  the associated token address of an owner and a mint, which is the address of the one
  run for their seed triple, and for the treasury address that \<^verbatim>\<open>main\<close> derives.
\<close>

theorem derivation_is_deterministic:
  "(bump_search L seeds program_id 255 r \<and> bump_search L seeds program_id 255 r' \<longrightarrow> r = r')
   \<and> bump_search L seeds program_id 255 (find_program_address L seeds program_id)
   \<and> bump_search L [treasury_seed, mint_pk] program_pk 255 (treasury_account L mint_pk program_pk)
   \<and> (bump_search L [owner, TOKEN_PROGRAM_ID L, mint] (ASSOCIATED_TOKEN_PROGRAM_ID L) 255
         (Inr (a, bump))
       \<longrightarrow> get_associated_token_address L owner mint = Inr a)
   \<and> (get_associated_token_address L owner mint = Inr a
       \<longrightarrow> (\<exists>bump. bump_search L [owner, TOKEN_PROGRAM_ID L, mint]
                      (ASSOCIATED_TOKEN_PROGRAM_ID L) 255 (Inr (a, bump))))"
proof (intro conjI impI)
  assume "bump_search L seeds program_id 255 r \<and> bump_search L seeds program_id 255 r'"
  then show "r = r'"
    using bump_search_unique [of L seeds program_id 255] by blast
next
  show "bump_search L seeds program_id 255 (find_program_address L seeds program_id)"
    unfolding find_program_address_def by (rule bump_search_try_bumps)
next
  show "bump_search L [treasury_seed, mint_pk] program_pk 255 (treasury_account L mint_pk program_pk)"
    unfolding treasury_account_def find_program_address_def by (rule bump_search_try_bumps)
next
  assume "bump_search L [owner, TOKEN_PROGRAM_ID L, mint] (ASSOCIATED_TOKEN_PROGRAM_ID L) 255
         (Inr (a, bump))"
  then have "Inr (a, bump) =
      try_bumps L [owner, TOKEN_PROGRAM_ID L, mint] (ASSOCIATED_TOKEN_PROGRAM_ID L) 255"
    by (rule bump_search_unique)
  then have "find_program_address L [owner, TOKEN_PROGRAM_ID L, mint] (ASSOCIATED_TOKEN_PROGRAM_ID L)
      = Inr (a, bump)"
    by (simp add: find_program_address_def)
  then show "get_associated_token_address L owner mint = Inr a"
    by (simp add: get_associated_token_address_def)
next
  assume g: "get_associated_token_address L owner mint = Inr a"
  then obtain bump where
    "find_program_address L [owner, TOKEN_PROGRAM_ID L, mint] (ASSOCIATED_TOKEN_PROGRAM_ID L)
       = Inr (a, bump)"
    by (auto simp: get_associated_token_address_def split: sum.splits)
  then have "bump_search L [owner, TOKEN_PROGRAM_ID L, mint] (ASSOCIATED_TOKEN_PROGRAM_ID L) 255
      (Inr (a, bump))"
    using bump_search_try_bumps [of L "[owner, TOKEN_PROGRAM_ID L, mint]"
        "ASSOCIATED_TOKEN_PROGRAM_ID L" 255]
    by (simp add: find_program_address_def)
  then show "\<exists>bump. bump_search L [owner, TOKEN_PROGRAM_ID L, mint]
      (ASSOCIATED_TOKEN_PROGRAM_ID L) 255 (Inr (a, bump))" ..
qed

section \<open>The associated token account\<close>

lemma get_or_create_Return:
  "fst (get_or_create_associated_token_account L client payer mint ch) = Return a \<Longrightarrow>
     get_associated_token_address L (pubkey payer) mint = Inr a"
  by (auto simp: get_or_create_associated_token_account_def Transaction_new_def
      split: sum.splits prod.splits option.splits)

lemma get_or_create_existing:
  "get_associated_token_address L (pubkey payer) mint = Inr ata \<Longrightarrow>
   get_account_info client (ledger ch) ata = (Inr (Some account), c') \<Longrightarrow>
     get_or_create_associated_token_account L client payer mint ch = (Return ata, ch\<lparr>ledger := c'\<rparr>)"
  by (simp add: get_or_create_associated_token_account_def)

lemma get_or_create_absent:
  "get_associated_token_address L (pubkey payer) mint = Inr ata \<Longrightarrow>
   get_account_info client (ledger ch) ata = (Inr None, c') \<Longrightarrow>
     get_or_create_associated_token_account L client payer mint ch
       = (Raise TypeError, ch\<lparr>ledger := c'\<rparr>)"
  by (simp add: get_or_create_associated_token_account_def Transaction_new_def)

lemma get_or_create_submitted:
  "submitted (snd (get_or_create_associated_token_account L client payer mint ch)) = submitted ch"
  by (auto simp: get_or_create_associated_token_account_def Transaction_new_def
      split: sum.splits prod.splits option.splits)

text \<open>
  Claim C6 fails in the code. When the node reports an account at the derived address,
  \<open>get_or_create_associated_token_account\<close> returns that address, and a value it
  returns is never another address. When the node reports no account, the call raises
  \<^verbatim>\<open>TypeError\<close> at \<^verbatim>\<open>Transaction()\<close>: it returns no address, where the claim has it
  return the derived address whether or not the account was there.
\<close>

theorem absent_account_raises_instead_of_returning:
  "(get_associated_token_address L (pubkey payer) mint = Inr ata
       \<and> get_account_info client (ledger ch) ata = (Inr None, c')
      \<longrightarrow> get_or_create_associated_token_account L client payer mint ch
            = (Raise TypeError, ch\<lparr>ledger := c'\<rparr>))
   \<and> (get_associated_token_address L (pubkey payer) mint = Inr ata
       \<and> get_account_info client (ledger ch) ata = (Inr (Some account), c')
      \<longrightarrow> get_or_create_associated_token_account L client payer mint ch
            = (Return ata, ch\<lparr>ledger := c'\<rparr>))
   \<and> (fst (get_or_create_associated_token_account L client payer mint ch) = Return a
      \<longrightarrow> get_associated_token_address L (pubkey payer) mint = Inr a)"
  using get_or_create_Return [of L client payer mint ch a]
    get_or_create_existing [of L payer mint ata client ch account c']
    get_or_create_absent [of L payer mint ata client ch c']
  by blast

text \<open>
  Claim C3 fails in the code. No call of \<open>get_or_create_associated_token_account\<close>
  ever submits a transaction, so two calls make no submission at all. On a node that
  holds no account at the derived address, the first call raises \<^verbatim>\<open>TypeError\<close> before
  anything is sent, the account is not created, and the second call, finding no account
  again, raises as well: neither call returns the address, where the claim has the second
  call find the account created and return the same address.
\<close>

theorem two_calls_create_nothing:
  "submitted (snd (get_or_create_associated_token_account L client payer mint ch)) = submitted ch
   \<and> (get_associated_token_address L (pubkey payer) mint = Inr ata
       \<and> get_account_info client (ledger ch) ata = (Inr None, c')
       \<and> get_account_info client c' ata = (Inr None, c'')
      \<longrightarrow> get_or_create_associated_token_account L client payer mint ch
            = (Raise TypeError, ch\<lparr>ledger := c'\<rparr>)
          \<and> get_or_create_associated_token_account L client payer mint
              (snd (get_or_create_associated_token_account L client payer mint ch))
            = (Raise TypeError, ch\<lparr>ledger := c''\<rparr>))"
proof (intro conjI impI)
  show "submitted (snd (get_or_create_associated_token_account L client payer mint ch))
      = submitted ch"
    by (rule get_or_create_submitted)
next
  assume h: "get_associated_token_address L (pubkey payer) mint = Inr ata
       \<and> get_account_info client (ledger ch) ata = (Inr None, c')
       \<and> get_account_info client c' ata = (Inr None, c'')"
  then show first: "get_or_create_associated_token_account L client payer mint ch
      = (Raise TypeError, ch\<lparr>ledger := c'\<rparr>)"
    by (simp add: get_or_create_absent)
  from h have "get_or_create_associated_token_account L client payer mint (ch\<lparr>ledger := c'\<rparr>)
      = (Raise TypeError, ch\<lparr>ledger := c', ledger := c''\<rparr>)"
    by (simp add: get_or_create_absent)
  with first show "get_or_create_associated_token_account L client payer mint
              (snd (get_or_create_associated_token_account L client payer mint ch))
            = (Raise TypeError, ch\<lparr>ledger := c''\<rparr>)"
    by simp
qed

lemma example_ata:
  "get_associated_token_address example_library (pubkey example_payer) example_mint
     = Inr [140, 3, 4, 6, 5, 253]"
  by code_simp

section \<open>The theorems at concrete inputs\<close>


lemma read_tx_bytes:
  "read_tx seen cur (concat (map (\<lambda>b. [1, b]) s) @ rest) = read_tx seen (rev s @ cur) rest"
  by (induction s arbitrary: cur) simp_all

lemma read_tx_signature:
  "read_tx seen [] (write_signature s @ rest) = read_tx (s # seen) [] rest"
  by (simp add: write_signature_def read_tx_bytes)

lemma read_tx_signatures:
  "read_tx seen [] (concat (map write_signature sigs) @ rest) = read_tx (rev sigs @ seen) [] rest"
  by (induction sigs arbitrary: seen) (simp_all add: read_tx_signature)

lemma read_tx_write_tx: "read_tx [] [] (write_tx t) = Some t"
  by (simp add: write_tx_def read_tx_signatures)

lemma example_library_reads_back:
  "\<forall>t. from_bytes example_library (to_bytes example_library t) = Some t"
  by (simp add: example_library_def read_tx_write_tx)

theorem signed_transaction_bound_to_message_witness:
  "try_sign example_library (message example_tx) [example_payer] = Some [[1, 2, 1, 2, 3]]
   \<and> to_bytes example_library \<lparr>message = [1, 2, 3], signatures = [[1, 2, 1, 2, 3]]\<rparr>
       = [1, 1, 1, 2, 1, 1, 1, 2, 1, 3, 2, 0, 1, 2, 3]
   \<and> from_bytes example_library [1, 1, 1, 2, 1, 1, 1, 2, 1, 3, 2, 0, 1, 2, 3]
       = Some \<lparr>message = [1, 2, 3], signatures = [[1, 2, 1, 2, 3]]\<rparr>
   \<and> (\<exists>wire raw decoded.
         new_requests start
           (snd (sign_and_broadcast example_library (answering accepting) example_tx example_payer start)) =
           [post_request ''broadcast'' (JDict [(''tx'', JStr wire)])] \<and>
         b64decode_canonical wire = Some raw \<and>
         from_bytes example_library raw = Some decoded \<and>
         message decoded = message example_tx \<and>
         signatures decoded = [[1, 2, 1, 2, 3]] \<and>
         VersionedTransaction_new example_library (message example_tx) [example_payer]
           = Inr decoded)
   \<and> try_sign example_library (message example_tx) [] = None"
proof -
  have h: "try_sign example_library (message example_tx) [example_payer] = Some [[1, 2, 1, 2, 3]]"
    by (simp add: example_library_def example_tx_def example_payer_def)
  have h': "try_sign example_library (message example_tx) [] = None"
    by (simp add: example_library_def)
  have w: "to_bytes example_library \<lparr>message = [1, 2, 3], signatures = [[1, 2, 1, 2, 3]]\<rparr>
       = [1, 1, 1, 2, 1, 1, 1, 2, 1, 3, 2, 0, 1, 2, 3]"
    by (simp add: example_library_def write_tx_def write_signature_def)
  have r: "from_bytes example_library [1, 1, 1, 2, 1, 1, 1, 2, 1, 3, 2, 0, 1, 2, 3]
       = Some \<lparr>message = [1, 2, 3], signatures = [[1, 2, 1, 2, 3]]\<rparr>"
    by (simp add: example_library_def)
  have c: "\<exists>wire raw decoded.
         new_requests start
           (snd (sign_and_broadcast example_library (answering accepting) example_tx example_payer start)) =
           [post_request ''broadcast'' (JDict [(''tx'', JStr wire)])] \<and>
         b64decode_canonical wire = Some raw \<and>
         from_bytes example_library raw = Some decoded \<and>
         message decoded = message example_tx \<and>
         signatures decoded = [[1, 2, 1, 2, 3]] \<and>
         VersionedTransaction_new example_library (message example_tx) [example_payer]
           = Inr decoded"
    by (rule signed_transaction_bound_to_message [where L = example_library and tx = example_tx
        and payer = example_payer and srv = "answering accepting" and n = start
        and sigs = "[[1, 2, 1, 2, 3]]", THEN conjunct2, THEN mp,
        OF conjI [OF example_library_reads_back h]])
  from h w r c h' show ?thesis by (intro conjI)
qed

theorem broadcast_returns_sig_field_witness:
  "sign_and_broadcast example_library (answering accepting) example_tx example_payer start =
     (Return (JStr ''5VERv8''),
      \<lparr>remote = (),
       sent = [broadcast_request example_library
                 \<lparr>message = message example_tx, signatures = [[1, 2, 1, 2, 3]]\<rparr>]\<rparr>)"
proof -
  let ?res = "\<lparr>status_code = 200, body_json = Some (JDict [(''sig'', JStr ''5VERv8'')])\<rparr>"
  have h1: "try_sign example_library (message example_tx) [example_payer] = Some [[1, 2, 1, 2, 3]]"
    by (simp add: example_library_def example_tx_def example_payer_def)
  have h2: "answering accepting (remote start)
      (broadcast_request example_library \<lparr>message = message example_tx, signatures = [[1, 2, 1, 2, 3]]\<rparr>)
      = (Reply ?res, ())"
    by (simp add: answering_def accepting_def broadcast_request_def post_request_def)
  have h3: "ok ?res"
    by (simp add: ok_def raise_for_status_def)
  from broadcast_returns_sig_field [where L = example_library and tx = example_tx
      and payer = example_payer and sigs = "[[1, 2, 1, 2, 3]]" and srv = "answering accepting"
      and n = start and res = ?res and w' = "()" and kv = "[(''sig'', JStr ''5VERv8'')]"
      and sg = "JStr ''5VERv8''"] h1 h2 h3
  show ?thesis by (simp add: start_def)
qed


theorem transfer_from_id_is_to_id_witness:
  "filter (\<lambda>rq. url rq = BASE_URL @ ''/transfer'')
     (new_requests start
        (snd (transfer_from_treasury example_library (answering accepting) ''dXNlcg=='' 100000
                example_payer ''So11'' ''Trea'' ''User'' start)))
     = [post_request ''transfer''
          (transfer_body example_library ''dXNlcg=='' 100000 example_payer ''So11'' ''Trea''
             ''User'')]
   \<and> getitem (transfer_body example_library ''dXNlcg=='' 100000 example_payer ''So11'' ''Trea''
        ''User'') ''from_id'' = Inr (JStr ''dXNlcg=='')
   \<and> getitem (transfer_body example_library ''dXNlcg=='' 100000 example_payer ''So11'' ''Trea''
        ''User'') ''to_id'' = Inr (JStr ''dXNlcg=='')"
  by (rule transfer_from_id_is_to_id)

theorem network_calls_carry_no_timeout_witness:
  "fst (answering silent (remote start)
          (post_request ''create_user''
             (create_user_body example_library ''dXNlcg=='' example_payer))) = Silent
   \<and> fst (fetch_unsigned example_library (answering silent) ''create_user''
            (create_user_body example_library ''dXNlcg=='' example_payer) start) = Hang
   \<and> try_sign example_library (message example_tx) [example_payer] = Some [[1, 2, 1, 2, 3]]
   \<and> fst (sign_and_broadcast example_library (answering silent) example_tx example_payer start)
       = Hang
   \<and> fst (balance_user (answering silent) ''dXNlcg=='' start) = Hang
   \<and> fst (total_supply (answering silent) start) = Hang
   \<and> fst (balance_treasury (answering silent) start) = Hang
   \<and> list_all (\<lambda>rq. timeout rq = None)
       (new_requests start (snd (total_supply (answering silent) start)))"
proof -
  have sil: "fst (answering silent w rq) = Silent" for w rq
    by (simp add: answering_def silent_def)
  have sg: "try_sign example_library (message example_tx) [example_payer] = Some [[1, 2, 1, 2, 3]]"
    by (simp add: example_library_def example_tx_def example_payer_def)
  from network_calls_carry_no_timeout [where L = example_library and srv = "answering silent"
      and n = start and route = "''create_user''"
      and body = "create_user_body example_library ''dXNlcg=='' example_payer"
      and tx = example_tx and payer = example_payer and sigs = "[[1, 2, 1, 2, 3]]"
      and user_id = "''dXNlcg==''"] sil sg
  show ?thesis by simp
qed


theorem derivation_is_deterministic_witness:
  "bump_search example_library [[1], [2]] [9] 255 (Inr ([9, 1, 2, 253], 253))
   \<and> find_program_address example_library [[1], [2]] [9] = Inr ([9, 1, 2, 253], 253)
   \<and> get_associated_token_address example_library [3, 4] [5] = Inr [140, 3, 4, 6, 5, 253]
   \<and> bump_search example_library [[3, 4], TOKEN_PROGRAM_ID example_library, [5]]
       (ASSOCIATED_TOKEN_PROGRAM_ID example_library) 255 (Inr ([140, 3, 4, 6, 5, 253], 253))"
proof -
  have e1: "find_program_address example_library [[1], [2]] [9] = Inr ([9, 1, 2, 253], 253)"
    by code_simp
  have e2: "find_program_address example_library [[3, 4], TOKEN_PROGRAM_ID example_library, [5]]
      (ASSOCIATED_TOKEN_PROGRAM_ID example_library) = Inr ([140, 3, 4, 6, 5, 253], 253)"
    by code_simp
  note run1 = derivation_is_deterministic [where L = example_library and seeds = "[[1], [2]]"
      and program_id = "[9]" and r = "Inr ([9, 1, 2, 253], 253)"
      and r' = "Inr ([9, 1, 2, 253], 253)" and mint_pk = "[5]" and program_pk = "[9]"
      and owner = "[3, 4]" and mint = "[5]" and a = "[140, 3, 4, 6, 5, 253]" and bump = 253]
  note run2 = derivation_is_deterministic [where L = example_library
      and seeds = "[[3, 4], TOKEN_PROGRAM_ID example_library, [5]]"
      and program_id = "ASSOCIATED_TOKEN_PROGRAM_ID example_library"
      and r = "Inr ([140, 3, 4, 6, 5, 253], 253)" and r' = "Inr ([140, 3, 4, 6, 5, 253], 253)"
      and mint_pk = "[5]" and program_pk = "[9]"
      and owner = "[3, 4]" and mint = "[5]" and a = "[140, 3, 4, 6, 5, 253]" and bump = 253]
  have b1: "bump_search example_library [[1], [2]] [9] 255 (Inr ([9, 1, 2, 253], 253))"
    using run1 [THEN conjunct2, THEN conjunct1] by (simp only: e1)
  have b2: "bump_search example_library [[3, 4], TOKEN_PROGRAM_ID example_library, [5]]
       (ASSOCIATED_TOKEN_PROGRAM_ID example_library) 255 (Inr ([140, 3, 4, 6, 5, 253], 253))"
    using run2 [THEN conjunct2, THEN conjunct1] by (simp only: e2)
  have b3: "get_associated_token_address example_library [3, 4] [5] = Inr [140, 3, 4, 6, 5, 253]"
    by (rule run1 [THEN conjunct2, THEN conjunct2, THEN conjunct2, THEN conjunct1, THEN mp, OF b2])
  from b1 e1 b3 b2 show ?thesis by (intro conjI)
qed

theorem absent_account_raises_instead_of_returning_witness:
  "get_associated_token_address example_library (pubkey example_payer) example_mint
     = Inr [140, 3, 4, 6, 5, 253]
   \<and> get_account_info example_node (ledger empty_chain) [140, 3, 4, 6, 5, 253] = (Inr None, [])
   \<and> get_or_create_associated_token_account example_library example_node example_payer
       example_mint empty_chain
     = (Raise TypeError, empty_chain)
   \<and> get_or_create_associated_token_account example_library example_node example_payer
       example_mint \<lparr>ledger = [[140, 3, 4, 6, 5, 253]], submitted = []\<rparr>
     = (Return [140, 3, 4, 6, 5, 253], \<lparr>ledger = [[140, 3, 4, 6, 5, 253]], submitted = []\<rparr>)"
proof -
  let ?ata = "[140, 3, 4, 6, 5, 253] :: PublicKey"
  let ?there = "\<lparr>ledger = [?ata], submitted = []\<rparr> :: PublicKey list chain"
  have g: "get_account_info example_node (ledger ?there) ?ata = (Inr (Some []), [?ata])"
    by (simp add: example_node_def)
  have g': "get_account_info example_node (ledger empty_chain) ?ata = (Inr None, [])"
    by (simp add: example_node_def empty_chain_def)
  note present = absent_account_raises_instead_of_returning [where L = example_library
      and client = example_node and payer = example_payer and mint = example_mint
      and ch = ?there and a = ?ata and ata = ?ata and account = "[]" and c' = "[?ata]"]
  note absent = absent_account_raises_instead_of_returning [where L = example_library
      and client = example_node and payer = example_payer and mint = example_mint
      and ch = empty_chain and a = ?ata and ata = ?ata and account = "[]" and c' = "[]"]
  have c: "get_or_create_associated_token_account example_library example_node example_payer
       example_mint empty_chain = (Raise TypeError, empty_chain)"
    using absent [THEN conjunct1, THEN mp, OF conjI [OF example_ata g']]
    by (simp add: empty_chain_def)
  have d: "get_or_create_associated_token_account example_library example_node example_payer
       example_mint ?there = (Return ?ata, ?there)"
    using present [THEN conjunct2, THEN conjunct1, THEN mp, OF conjI [OF example_ata g]]
    by simp
  from example_ata g' c d show ?thesis by (intro conjI)
qed

theorem two_calls_create_nothing_witness:
  "get_associated_token_address example_library (pubkey example_payer) example_mint
     = Inr [140, 3, 4, 6, 5, 253]
   \<and> get_account_info example_node (ledger empty_chain) [140, 3, 4, 6, 5, 253] = (Inr None, [])
   \<and> get_or_create_associated_token_account example_library example_node example_payer
       example_mint empty_chain
     = (Raise TypeError, empty_chain)
   \<and> get_or_create_associated_token_account example_library example_node example_payer
       example_mint
       (snd (get_or_create_associated_token_account example_library example_node example_payer
               example_mint empty_chain))
     = (Raise TypeError, empty_chain)
   \<and> submitted (snd (get_or_create_associated_token_account example_library example_node
        example_payer example_mint
        (snd (get_or_create_associated_token_account example_library example_node example_payer
                example_mint empty_chain))))
     = []"
proof -
  let ?ata = "[140, 3, 4, 6, 5, 253] :: PublicKey"
  have g: "get_account_info example_node (ledger empty_chain) ?ata = (Inr None, [])"
    by (simp add: example_node_def empty_chain_def)
  have g': "get_account_info example_node [] ?ata = (Inr None, [])"
    by (simp add: example_node_def)
  note twice = two_calls_create_nothing [where L = example_library and client = example_node
      and payer = example_payer and mint = example_mint and ch = empty_chain and ata = ?ata
      and c' = "[]" and c'' = "[]"]
  note both = twice [THEN conjunct2, THEN mp, OF conjI [OF example_ata conjI [OF g g']]]
  have c: "get_or_create_associated_token_account example_library example_node example_payer
       example_mint empty_chain = (Raise TypeError, empty_chain)"
    using both [THEN conjunct1] by (simp add: empty_chain_def)
  have d: "get_or_create_associated_token_account example_library example_node example_payer
       example_mint
       (snd (get_or_create_associated_token_account example_library example_node example_payer
               example_mint empty_chain))
     = (Raise TypeError, empty_chain)"
    using both [THEN conjunct2] by (simp add: empty_chain_def)
  have e: "submitted (snd (get_or_create_associated_token_account example_library example_node
        example_payer example_mint
        (snd (get_or_create_associated_token_account example_library example_node example_payer
                example_mint empty_chain))))
     = []"
    by (simp only: d snd_conv) (simp add: empty_chain_def)
  from example_ata g c d e show ?thesis by (intro conjI)
qed

end
